theory Spec2Isabelle
  imports Main
begin

section \<open>Data model (models.py)\<close>

text \<open>
  A Python \<open>dict\<close> keeps its entries in insertion order and has one entry per key. It is
  modelled as an association list; a well-formed dictionary has distinct keys.
\<close>

type_synonym ('k, 'v) dict = "('k \<times> 'v) list"

definition dict_values :: "('k, 'v) dict \<Rightarrow> 'v list" where
  "dict_values d = map snd d"

definition dict_keys :: "('k, 'v) dict \<Rightarrow> 'k list" where
  "dict_keys d = map fst d"

record TangoNode =
  fqdn :: string
  ssh_key_path :: "string option"
  ssh_username :: "string option"
  volumes_path :: "string option"

record Config =
  docker_hub_org :: string
  ssh_key_path :: string
  ssh_username :: string
  volumes_path :: string
  tango_nodes :: "(string, TangoNode) dict"

section \<open>Exceptions and the outside world\<close>

text \<open>
  The exceptions the program can raise. \<open>KeyError\<close> carries the missing key,
  \<open>AssertionError\<close> and \<open>Exception\<close> carry their message.
\<close>

datatype exn =
    KeyError string
  | IndexError
  | AssertionError string
  | Exception string

text \<open>
  What the program does to the outside world, in the order it does it: a line printed on
  standard output, or a child process started with an argument vector by
  \<open>subprocess.run\<close>.
\<close>

datatype event =
    Print string
  | Run "string list"

text \<open>
  The collaborators (docker, ssh and the remote hosts) are a parameter: the exit status of a
  child process is any function of what has happened so far and of the argument vector.
  \<open>subprocess.run\<close> is called without \<open>check=True\<close>, so it returns the exit
  status whatever it is.
\<close>

type_synonym world = "event list \<Rightarrow> string list \<Rightarrow> int"

definition subprocess_run :: "world \<Rightarrow> string list \<Rightarrow> event list \<Rightarrow> int \<times> event list" where
  "subprocess_run W argv tr = (W tr argv, tr @ [Run argv])"

definition print :: "string \<Rightarrow> event list \<Rightarrow> event list" where
  "print s tr = tr @ [Print s]"

section \<open>Strings\<close>

text \<open>\<open>s.split(c)\<close> for a separator of one character: never empty, no trimming.\<close>

fun split :: "char \<Rightarrow> string \<Rightarrow> string list" where
  "split c [] = [[]]"
| "split c (x # xs) =
     (if x = c then [] # split c xs
      else (case split c xs of
              [] \<Rightarrow> [[x]]
            | t # ts \<Rightarrow> (x # t) # ts))"

text \<open>\<open>c.join(ts)\<close>, the inverse of \<open>split\<close>.\<close>

fun join :: "char \<Rightarrow> string list \<Rightarrow> string" where
  "join c [] = []"
| "join c [t] = t"
| "join c (t # ts) = t @ c # join c ts"

text \<open>\<open>xs[1]\<close>, which raises IndexError on a list shorter than two.\<close>

definition index1 :: "'a list \<Rightarrow> exn + 'a" where
  "index1 xs = (if 2 \<le> length xs then Inr (xs ! 1) else Inl IndexError)"

text \<open>\<open>str(n)\<close> for an integer, as an f-string formats it.\<close>

fun str_nat :: "nat \<Rightarrow> string" where
  "str_nat n =
     (if n < 10 then [''0123456789'' ! n]
      else str_nat (n div 10) @ [''0123456789'' ! (n mod 10)])"

definition str_int :: "int \<Rightarrow> string" where
  "str_int i = (if i < 0 then CHR ''-'' # str_nat (nat (- i)) else str_nat (nat i))"

text \<open>A decimal number padded with zeros on the left to a width, as strftime pads.\<close>

definition zero_padded :: "nat \<Rightarrow> nat \<Rightarrow> string" where
  "zero_padded w n = replicate (w - length (str_nat n)) CHR ''0'' @ str_nat n"

text \<open>
  \<open>x if x else d\<close> on an optional string: \<open>None\<close> and the empty string are both
  falsy.
\<close>

definition if_truthy_else :: "string option \<Rightarrow> string \<Rightarrow> string" where
  "if_truthy_else x d = (case x of None \<Rightarrow> d | Some s \<Rightarrow> if s = [] then d else s)"

section \<open>Command line (parse_args_to_config)\<close>

datatype command =
    Build string string
  | Deploy string string
  | Aio string string

record Namespace =
  org :: "string option"
  ssh_key_path :: "string option"
  ssh_username :: "string option"
  command :: command

text \<open>
  The arguments arrive parsed. The three global options replace the configuration's
  defaults when they are given and not empty (\<open>if args.org:\<close>).
\<close>

definition parse_args_to_config :: "Namespace \<Rightarrow> Config \<Rightarrow> Config" where
  "parse_args_to_config args config =
     config\<lparr>docker_hub_org := if_truthy_else (org args) (docker_hub_org config),
            Config.ssh_key_path :=
              if_truthy_else (Namespace.ssh_key_path args) (Config.ssh_key_path config),
            Config.ssh_username :=
              if_truthy_else (Namespace.ssh_username args) (Config.ssh_username config)\<rparr>"

section \<open>Node resolution\<close>

definition get_tango_node :: "Config \<Rightarrow> string \<Rightarrow> exn + TangoNode" where
  "get_tango_node config name =
     (case map_of (tango_nodes config) name of
        None \<Rightarrow> Inl (KeyError name)
      | Some node \<Rightarrow> Inr node)"

text \<open>The list comprehension: the first lookup that raises ends it.\<close>

fun get_tango_nodes :: "Config \<Rightarrow> string list \<Rightarrow> exn + TangoNode list" where
  "get_tango_nodes config [] = Inr []"
| "get_tango_nodes config (name # names) =
     (case get_tango_node config name of
        Inl e \<Rightarrow> Inl e
      | Inr node \<Rightarrow>
          (case get_tango_nodes config names of
             Inl e \<Rightarrow> Inl e
           | Inr nodes \<Rightarrow> Inr (node # nodes)))"

definition node_list_to_nodes :: "Config \<Rightarrow> string \<Rightarrow> exn + TangoNode list" where
  "node_list_to_nodes config node_list =
     (if node_list = ''all'' then Inr (dict_values (tango_nodes config))
      else get_tango_nodes config (split CHR '','' node_list))"

section \<open>Building\<close>

text \<open>
  The wall clock is a parameter: \<open>datetime.now()\<close> is the reading \<open>now\<close>, with the
  calendar's ranges (a month from 1 to 12, an hour below 24 and so on).
\<close>

record datetime =
  year :: nat
  month :: nat
  day :: nat
  hour :: nat
  minute :: nat
  second :: nat

text \<open>
  \<open>strftime("%Y.%m.%d.%H%M%S")\<close>: the C library writes the year in decimal as it is,
  without padding, and the other fields padded with zeros to two digits.
\<close>

definition get_date_time_stamp :: "datetime \<Rightarrow> string" where
  "get_date_time_stamp now =
     str_nat (year now) @ ''.'' @ zero_padded 2 (month now) @ ''.'' @
     zero_padded 2 (day now) @ ''.'' @
     zero_padded 2 (hour now) @ zero_padded 2 (minute now) @ zero_padded 2 (second now)"

definition build_docker_image_from_dockerfile ::
  "world \<Rightarrow> datetime \<Rightarrow> string \<Rightarrow> string \<Rightarrow> event list \<Rightarrow> (exn + string) \<times> event list" where
  "build_docker_image_from_dockerfile W now dockerfile image_name tr =
     (if CHR '':'' \<in> set image_name
      then (Inl (AssertionError ''image_name should not include a tag''), tr)
      else if count_list image_name CHR ''/'' \<noteq> 1
      then (Inl (AssertionError ''image_name should include exactly one slash (for the org)''), tr)
      else
        let timestamp_tag = get_date_time_stamp now;
            image_name_timestamp = image_name @ '':'' @ timestamp_tag;
            image_name_latest = image_name @ '':latest'';
            (_, tr1) = subprocess_run W [''docker'', ''build'', ''-t'', image_name_timestamp, dockerfile] tr;
            (_, tr2) = subprocess_run W [''docker'', ''tag'', image_name_timestamp, image_name_latest] tr1
        in (Inr image_name_latest, tr2))"

definition push_docker_image :: "world \<Rightarrow> string \<Rightarrow> event list \<Rightarrow> event list" where
  "push_docker_image W image_name tr =
     (let (_, tr1) = subprocess_run W [''docker'', ''push'', image_name] tr in tr1)"

definition build ::
  "world \<Rightarrow> datetime \<Rightarrow> Config \<Rightarrow> string \<Rightarrow> string \<Rightarrow> event list \<Rightarrow> (exn + string) \<times> event list" where
  "build W now config dockerfile arg_image_name tr =
     (let org = docker_hub_org config;
          image_name = org @ ''/'' @ arg_image_name
      in if CHR ''/'' \<in> set arg_image_name
         then (Inl (AssertionError
                 ''image_name, as an argument, should not include a slash (do not specify an org here, use --org instead)''), tr)
         else build_docker_image_from_dockerfile W now dockerfile image_name tr)"

section \<open>Remote commands and deployment\<close>

definition command_failed :: "string \<Rightarrow> string \<Rightarrow> int \<Rightarrow> string" where
  "command_failed host cmd returncode =
     ''Command failed on '' @ host @ '': '' @ cmd @ ''. Status code: '' @ str_int returncode"

definition ssh_argv :: "Config \<Rightarrow> string \<Rightarrow> TangoNode \<Rightarrow> string list" where
  "ssh_argv config cmd tango_node =
     (let ssh_key_path = if_truthy_else (TangoNode.ssh_key_path tango_node) (Config.ssh_key_path config);
          ssh_username = if_truthy_else (TangoNode.ssh_username tango_node) (Config.ssh_username config);
          ssh_user_host = ssh_username @ ''@'' @ fqdn tango_node
      in [''ssh'', ''-o'', ''IdentitiesOnly=yes'', ''-i'', ssh_key_path, ssh_user_host, cmd])"

definition run_command_on_tango_node ::
  "world \<Rightarrow> Config \<Rightarrow> string \<Rightarrow> TangoNode \<Rightarrow> event list \<Rightarrow> (exn + unit) \<times> event list" where
  "run_command_on_tango_node W config cmd tango_node tr =
     (let (returncode, tr1) = subprocess_run W (ssh_argv config cmd tango_node) tr
      in if returncode \<noteq> 0
         then (Inl (Exception (command_failed (fqdn tango_node) cmd returncode)), tr1)
         else (Inr (), tr1))"

definition deploy_docker_image ::
  "world \<Rightarrow> Config \<Rightarrow> string \<Rightarrow> TangoNode \<Rightarrow> event list \<Rightarrow> (exn + unit) \<times> event list" where
  "deploy_docker_image W config image_name tango_node tr =
     (let tr0 = print (''Deploying image '' @ image_name @ '' to '' @ fqdn tango_node @ ''...'') tr
      in case index1 (split CHR ''/'' image_name) of
           Inl e \<Rightarrow> (Inl e, tr0)
         | Inr image_name_without_org \<Rightarrow>
            (case run_command_on_tango_node W config (''docker pull '' @ image_name) tango_node tr0 of
               (Inl e, tr1) \<Rightarrow> (Inl e, tr1)
             | (Inr _, tr1) \<Rightarrow>
            (case run_command_on_tango_node W config
                    (''docker tag '' @ image_name @ '' '' @ image_name_without_org) tango_node tr1 of
               (Inl e, tr2) \<Rightarrow> (Inl e, tr2)
             | (Inr _, tr2) \<Rightarrow>
            (case run_command_on_tango_node W config (''docker image rm '' @ image_name) tango_node tr2 of
               (Inl e, tr3) \<Rightarrow> (Inl e, tr3)
             | (Inr _, tr3) \<Rightarrow>
                 (Inr (), print (''Finished deploying image '' @ image_name @ '' to '' @ fqdn tango_node) tr3)))))"

text \<open>
  \<open>for node in target_nodes: deploy_docker_image(image, node)\<close>, the loop of both
  \<open>deploy\<close> and \<open>aio\<close>. Nothing catches the exception of an iteration.
\<close>

fun deploy_to_nodes ::
  "world \<Rightarrow> Config \<Rightarrow> string \<Rightarrow> TangoNode list \<Rightarrow> event list \<Rightarrow> (exn + unit) \<times> event list" where
  "deploy_to_nodes W config image_name [] tr = (Inr (), tr)"
| "deploy_to_nodes W config image_name (node # nodes) tr =
     (case deploy_docker_image W config image_name node tr of
        (Inl e, tr1) \<Rightarrow> (Inl e, tr1)
      | (Inr _, tr1) \<Rightarrow> deploy_to_nodes W config image_name nodes tr1)"

definition deploy ::
  "world \<Rightarrow> Config \<Rightarrow> string \<Rightarrow> string \<Rightarrow> event list \<Rightarrow> (exn + unit) \<times> event list" where
  "deploy W config arg_image_name arg_tango_node tr =
     (case node_list_to_nodes config arg_tango_node of
        Inl e \<Rightarrow> (Inl e, tr)
      | Inr target_nodes \<Rightarrow> deploy_to_nodes W config arg_image_name target_nodes tr)"

definition aio ::
  "world \<Rightarrow> datetime \<Rightarrow> Config \<Rightarrow> string \<Rightarrow> string \<Rightarrow> event list \<Rightarrow> (exn + unit) \<times> event list" where
  "aio W now config dockerfile arg_image_name tr =
     (case build W now config dockerfile arg_image_name tr of
        (Inl e, tr1) \<Rightarrow> (Inl e, tr1)
      | (Inr image_name_latest, tr1) \<Rightarrow>
          deploy_to_nodes W config image_name_latest (dict_values (tango_nodes config))
            (push_docker_image W image_name_latest tr1))"

section \<open>The program\<close>

definition main :: "world \<Rightarrow> datetime \<Rightarrow> Config \<Rightarrow> Namespace \<Rightarrow> (exn + unit) \<times> event list" where
  "main W now config0 args =
     (let config = parse_args_to_config args config0
      in case command args of
           Build dockerfile image_name \<Rightarrow>
             (case build W now config dockerfile image_name [] of
                (Inl e, tr) \<Rightarrow> (Inl e, tr)
              | (Inr _, tr) \<Rightarrow> (Inr (), tr))
         | Deploy image_name tango_node \<Rightarrow> deploy W config image_name tango_node []
         | Aio dockerfile image_name \<Rightarrow> aio W now config dockerfile image_name [])"

text \<open>
  The exit status of the interpreter: 0 when \<open>main\<close> returns, 1 when an exception
  leaves it.
\<close>

definition exit_code :: "(exn + unit) \<times> event list \<Rightarrow> int" where
  "exit_code r = (case fst r of Inl _ \<Rightarrow> 1 | Inr _ \<Rightarrow> 0)"

section \<open>The calendar and the timestamp format\<close>

text \<open>
  The ranges of a clock reading: \<open>datetime.now()\<close> is a date of the present, so its
  year has four digits.
\<close>

definition calendar :: "datetime \<Rightarrow> bool" where
  "calendar now =
     (1000 \<le> year now \<and> year now \<le> 9999 \<and> 1 \<le> month now \<and> month now \<le> 12 \<and>
      1 \<le> day now \<and> day now \<le> 31 \<and> hour now < 24 \<and> minute now < 60 \<and> second now < 60)"

text \<open>
  The format \<open>YYYY.MM.DD.HHMMSS\<close> as the specification writes it: a dot where the
  pattern has a dot, a decimal digit where it has a letter, and the same length.
\<close>

definition timestamp_format :: "string \<Rightarrow> bool" where
  "timestamp_format s =
     list_all2 (\<lambda>p c. if p = CHR ''.'' then c = CHR ''.'' else c \<in> set ''0123456789'')
       ''YYYY.MM.DD.HHMMSS'' s"

text \<open>
  A number written in two and in four decimal digits, the most significant first: what
  \<open>MM\<close>, \<open>DD\<close>, \<open>HH\<close>, \<open>SS\<close> and \<open>YYYY\<close> stand for.
\<close>

definition decimal_digit :: "nat \<Rightarrow> char" where
  "decimal_digit n = ''0123456789'' ! n"

definition two_decimals :: "nat \<Rightarrow> string" where
  "two_decimals n = [decimal_digit (n div 10), decimal_digit (n mod 10)]"

definition four_decimals :: "nat \<Rightarrow> string" where
  "four_decimals n =
     [decimal_digit (n div 1000), decimal_digit (n div 100 mod 10),
      decimal_digit (n div 10 mod 10), decimal_digit (n mod 10)]"

section \<open>Example inputs\<close>

text \<open>
  A configuration with two nodes. \<open>nodeA\<close> overrides the user name only; \<open>nodeB\<close>
  overrides the key path and has an empty user name (\<open>ssh_username: ""\<close> in the YAML).
\<close>

definition nodeA :: TangoNode where
  "nodeA = \<lparr>fqdn = ''a.example.org'', ssh_key_path = None, ssh_username = Some ''deploy'', volumes_path = None\<rparr>"
definition nodeB :: TangoNode where
  "nodeB = \<lparr>fqdn = ''b.example.org'', ssh_key_path = Some ''/keys/b'', ssh_username = Some [], volumes_path = None\<rparr>"
definition example_config :: Config where
  "example_config = \<lparr>docker_hub_org = ''acme'', ssh_key_path = ''/keys/default'', ssh_username = ''tango'', volumes_path = ''/vol'',
     tango_nodes = [(''nodeA'', nodeA), (''nodeB'', nodeB)]\<rparr>"

definition always_fails :: world where
  "always_fails tr argv = 1"

definition always_succeeds :: world where
  "always_succeeds tr argv = 0"

definition fails_on_retag :: world where
  "fails_on_retag tr argv = (if take 10 (last argv) = ''docker tag'' then 125 else 0)"

definition example_now :: datetime where
  "example_now = \<lparr>year = 2024, month = 3, day = 7, hour = 9, minute = 5, second = 0\<rparr>"

section \<open>Splitting and joining\<close>

declare str_nat.simps [simp del]

lemma split_not_Nil: "split c s \<noteq> []"
  by (induction s) (auto split: list.splits)

lemma join_split: "join c (split c s) = s"
proof (induction s)
  case Nil
  show ?case by simp
next
  case (Cons x xs)
  obtain t ts where ts: "split c xs = t # ts"
    using split_not_Nil [of c xs] by (cases "split c xs") auto
  show ?case
  proof (cases "x = c")
    case True
    with Cons ts show ?thesis by simp
  next
    case False
    with Cons ts show ?thesis by (cases ts) auto
  qed
qed

lemma split_tokens_no_sep: "t \<in> set (split c s) \<Longrightarrow> c \<notin> set t"
proof (induction s arbitrary: t)
  case Nil
  then show ?case by simp
next
  case (Cons x xs)
  then show ?case
    by (auto split: if_splits list.splits)
qed

lemma split_no_sep: "c \<notin> set s \<Longrightarrow> split c s = [s]"
  by (induction s) auto

lemma split_at_first_sep: "c \<notin> set a \<Longrightarrow> split c (a @ c # b) = a # split c b"
  by (induction a) auto

section \<open>Resolving a selector\<close>

lemma get_tango_nodes_found:
  "map (map_of (tango_nodes config)) names = map Some nodes \<Longrightarrow>
   get_tango_nodes config names = Inr nodes"
  by (induction names arbitrary: nodes) (auto simp: get_tango_node_def)

lemma get_tango_nodes_all_known:
  "\<forall>name \<in> set names. map_of (tango_nodes config) name \<noteq> None \<Longrightarrow>
   \<exists>nodes. get_tango_nodes config names = Inr nodes \<and>
     map (map_of (tango_nodes config)) names = map Some nodes"
  by (induction names) (auto simp: get_tango_node_def)

lemma get_tango_nodes_unknown:
  "name \<in> set names \<Longrightarrow> map_of (tango_nodes config) name = None \<Longrightarrow>
   \<exists>k \<in> set names. map_of (tango_nodes config) k = None \<and>
      get_tango_nodes config names = Inl (KeyError k)"
  by (induction names) (auto simp: get_tango_node_def split: option.splits sum.splits)

lemma values_are_lookups:
  "distinct (map fst d) \<Longrightarrow> map (map_of d) (map fst d) = map Some (map snd d)"
  by (induction d) (auto simp: rev_image_eqI)

text \<open>
  C5. The selector \<open>all\<close> resolves to the values of the node mapping in the mapping's
  order: one node per key, and the node at each position is the one its key looks up.
\<close>

theorem resolve_all:
  assumes "distinct (dict_keys (tango_nodes config))"
  shows "node_list_to_nodes config ''all'' = Inr (dict_values (tango_nodes config)) \<and>
         length (dict_values (tango_nodes config)) = length (dict_keys (tango_nodes config)) \<and>
         get_tango_nodes config (dict_keys (tango_nodes config)) = Inr (dict_values (tango_nodes config))"
  using assms values_are_lookups [of "tango_nodes config"]
  by (simp add: node_list_to_nodes_def dict_values_def dict_keys_def get_tango_nodes_found)

theorem resolve_all_witness:
  "distinct (dict_keys (tango_nodes example_config)) \<and>
   node_list_to_nodes example_config ''all'' = Inr [nodeA, nodeB] \<and>
   get_tango_nodes example_config [''nodeA'', ''nodeB''] = Inr [nodeA, nodeB]"
  using resolve_all [of example_config]
  by (simp add: example_config_def dict_keys_def dict_values_def)

text \<open>
  C6. A selector other than \<open>all\<close> whose tokens all name nodes resolves to the nodes
  looked up, token by token: same order, duplicates kept. The tokens are the pieces of
  the selector between its commas, unchanged (joining them with commas gives the selector
  back), so nothing is trimmed.
\<close>

theorem resolve_names:
  assumes "node_list \<noteq> ''all''"
    and "\<forall>name \<in> set (split CHR '','' node_list). map_of (tango_nodes config) name \<noteq> None"
  shows "\<exists>nodes. node_list_to_nodes config node_list = Inr nodes \<and>
           map Some nodes = map (map_of (tango_nodes config)) (split CHR '','' node_list) \<and>
           join CHR '','' (split CHR '','' node_list) = node_list"
  using get_tango_nodes_all_known [OF assms(2)] assms(1)
  by (auto simp: node_list_to_nodes_def join_split)

theorem resolve_names_witness:
  "''nodeA,nodeB,nodeA'' \<noteq> ''all'' \<and>
   map (map_of (tango_nodes example_config)) (split CHR '','' ''nodeA,nodeB,nodeA'') =
     [Some nodeA, Some nodeB, Some nodeA] \<and>
   node_list_to_nodes example_config ''nodeA,nodeB,nodeA'' = Inr [nodeA, nodeB, nodeA]"
proof -
  have a: "''nodeA,nodeB,nodeA'' \<noteq> ''all''" by simp
  have s: "split CHR '','' ''nodeA,nodeB,nodeA'' = [''nodeA'', ''nodeB'', ''nodeA'']" by simp
  have b: "\<forall>name \<in> set (split CHR '','' ''nodeA,nodeB,nodeA''). map_of (tango_nodes example_config) name \<noteq> None"
    unfolding s by (simp add: example_config_def)
  from resolve_names [OF a b] obtain nodes where
    n: "node_list_to_nodes example_config ''nodeA,nodeB,nodeA'' = Inr nodes"
    and m: "map Some nodes = map (map_of (tango_nodes example_config)) (split CHR '','' ''nodeA,nodeB,nodeA'')"
    by blast
  from m have "map Some nodes = map Some [nodeA, nodeB, nodeA]"
    unfolding s by (simp add: example_config_def)
  then have "nodes = [nodeA, nodeB, nodeA]"
    by (simp add: map_eq_Cons_conv) 
  with a n show ?thesis
    unfolding s by (simp add: example_config_def)
qed

section \<open>The deploy sequence of one node\<close>

lemma run_command_on_tango_node_eq:
  "run_command_on_tango_node W config cmd node tr =
     (if W tr (ssh_argv config cmd node) \<noteq> 0
      then Inl (Exception (command_failed (fqdn node) cmd (W tr (ssh_argv config cmd node))))
      else Inr (),
      tr @ [Run (ssh_argv config cmd node)])"
  by (simp add: run_command_on_tango_node_def subprocess_run_def)

lemma bare_name: "CHR ''/'' \<notin> set organization \<Longrightarrow> CHR ''/'' \<notin> set name_tag \<Longrightarrow>
  index1 (split CHR ''/'' (organization @ CHR ''/'' # name_tag)) = Inr name_tag"
  by (simp add: split_at_first_sep split_no_sep index1_def)

text \<open>
  C4. For an image reference \<open>org/name:tag\<close> (one slash), the deploy sequence of a node
  starts the three remote commands pull, retag under \<open>name:tag\<close>, remove, in this
  order, each with the node's ssh arguments. The first command with a status other than 0
  ends the sequence with an exception, and the commands after it are not started: when
  the retag fails, the trace ends at the retag.
\<close>

theorem deploy_sequence:
  assumes "CHR ''/'' \<notin> set organization" and "CHR ''/'' \<notin> set name_tag"
  shows "deploy_docker_image W config (organization @ ''/'' @ name_tag) node tr =
     (let image_name = organization @ ''/'' @ name_tag;
          pull = ssh_argv config (''docker pull '' @ image_name) node;
          retag = ssh_argv config (''docker tag '' @ image_name @ '' '' @ name_tag) node;
          cleanup = ssh_argv config (''docker image rm '' @ image_name) node;
          tr0 = tr @ [Print (''Deploying image '' @ image_name @ '' to '' @ fqdn node @ ''...'')];
          tr1 = tr0 @ [Run pull];
          tr2 = tr1 @ [Run retag];
          tr3 = tr2 @ [Run cleanup]
      in if W tr0 pull \<noteq> 0
         then (Inl (Exception (command_failed (fqdn node) (''docker pull '' @ image_name) (W tr0 pull))), tr1)
         else if W tr1 retag \<noteq> 0
         then (Inl (Exception (command_failed (fqdn node)
                 (''docker tag '' @ image_name @ '' '' @ name_tag) (W tr1 retag))), tr2)
         else if W tr2 cleanup \<noteq> 0
         then (Inl (Exception (command_failed (fqdn node)
                 (''docker image rm '' @ image_name) (W tr2 cleanup))), tr3)
         else (Inr (), tr3 @ [Print (''Finished deploying image '' @ image_name @ '' to '' @ fqdn node)]))"
proof -
  have b: "index1 (split CHR ''/'' (organization @ ''/'' @ name_tag)) = Inr name_tag"
    using assms bare_name [of organization name_tag] by simp
  show ?thesis
    unfolding deploy_docker_image_def b
    by (simp add: run_command_on_tango_node_eq print_def Let_def)
qed

theorem deploy_sequence_witness:
  "CHR ''/'' \<notin> set ''acme'' \<and> CHR ''/'' \<notin> set ''svc:latest'' \<and>
   deploy_docker_image fails_on_retag example_config ''acme/svc:latest'' nodeA [] =
     (Inl (Exception ''Command failed on a.example.org: docker tag acme/svc:latest svc:latest. Status code: 125''),
      [Print ''Deploying image acme/svc:latest to a.example.org...'',
       Run [''ssh'', ''-o'', ''IdentitiesOnly=yes'', ''-i'', ''/keys/default'', ''deploy@a.example.org'',
            ''docker pull acme/svc:latest''],
       Run [''ssh'', ''-o'', ''IdentitiesOnly=yes'', ''-i'', ''/keys/default'', ''deploy@a.example.org'',
            ''docker tag acme/svc:latest svc:latest'']])"
proof -
  have a: "CHR ''/'' \<notin> set ''acme''" and b: "CHR ''/'' \<notin> set ''svc:latest''"
    by simp_all
  have s: "str_nat 125 = ''125''"
    by (simp add: str_nat.simps)
  show ?thesis
    using a b deploy_sequence [OF a b, of fails_on_retag example_config nodeA "[]"]
    by (simp add: Let_def fails_on_retag_def ssh_argv_def example_config_def nodeA_def
        if_truthy_else_def command_failed_def str_int_def s)
qed

section \<open>The loop over the nodes\<close>

lemma deploy_to_nodes_append:
  "deploy_to_nodes W config image_name (xs @ ys) tr =
     (case deploy_to_nodes W config image_name xs tr of
        (Inl e, tr1) \<Rightarrow> (Inl e, tr1)
      | (Inr u, tr1) \<Rightarrow> deploy_to_nodes W config image_name ys tr1)"
  by (induction xs arbitrary: tr) (auto split: prod.splits sum.splits)

lemma deploy_docker_image_failure:
  assumes "deploy_docker_image W config image_name node tr = (Inl (Exception msg), tr')"
  shows "\<exists>cmd pre. tr' = pre @ [Run (ssh_argv config cmd node)] \<and>
           W pre (ssh_argv config cmd node) \<noteq> 0 \<and>
           msg = command_failed (fqdn node) cmd (W pre (ssh_argv config cmd node))"
  using assms
  unfolding deploy_docker_image_def run_command_on_tango_node_eq Let_def
  by (auto split: sum.splits if_splits simp: index1_def)

lemma example_nodes: "node_list_to_nodes example_config ''nodeA,nodeB'' = Inr [nodeA, nodeB]"
  by (simp add: node_list_to_nodes_def example_config_def get_tango_node_def)

lemma nodeA_pull_fails:
  "deploy_docker_image always_fails example_config ''acme/svc:latest'' nodeA [] =
     (Inl (Exception ''Command failed on a.example.org: docker pull acme/svc:latest. Status code: 1''),
      [Print ''Deploying image acme/svc:latest to a.example.org...'',
       Run [''ssh'', ''-o'', ''IdentitiesOnly=yes'', ''-i'', ''/keys/default'', ''deploy@a.example.org'',
            ''docker pull acme/svc:latest'']])"
  by (simp add: deploy_docker_image_def index1_def run_command_on_tango_node_eq print_def
      always_fails_def ssh_argv_def example_config_def nodeA_def if_truthy_else_def
      command_failed_def str_int_def str_nat.simps)

text \<open>
  C1, as stated, fails: with two nodes resolved and the first node's pull failing,
  \<open>deploy\<close> ends with that exception and starts nothing on the second node.
\<close>

theorem later_nodes_not_attempted_counterexample:
  "node_list_to_nodes example_config ''nodeA,nodeB'' = Inr [nodeA, nodeB] \<and>
   deploy always_fails example_config ''acme/svc:latest'' ''nodeA,nodeB'' [] =
     (Inl (Exception ''Command failed on a.example.org: docker pull acme/svc:latest. Status code: 1''),
      [Print ''Deploying image acme/svc:latest to a.example.org...'',
       Run [''ssh'', ''-o'', ''IdentitiesOnly=yes'', ''-i'', ''/keys/default'', ''deploy@a.example.org'',
            ''docker pull acme/svc:latest'']]) \<and>
   Run (ssh_argv example_config ''docker pull acme/svc:latest'' nodeB)
     \<notin> set (snd (deploy always_fails example_config ''acme/svc:latest'' ''nodeA,nodeB'' []))"
proof -
  have d: "deploy always_fails example_config ''acme/svc:latest'' ''nodeA,nodeB'' [] =
     (Inl (Exception ''Command failed on a.example.org: docker pull acme/svc:latest. Status code: 1''),
      [Print ''Deploying image acme/svc:latest to a.example.org...'',
       Run [''ssh'', ''-o'', ''IdentitiesOnly=yes'', ''-i'', ''/keys/default'', ''deploy@a.example.org'',
            ''docker pull acme/svc:latest'']])"
    by (simp add: deploy_def example_nodes nodeA_pull_fails)
  show ?thesis
    unfolding d by (simp add: example_nodes ssh_argv_def nodeB_def)
qed

text \<open>
  C1, amended. When the deploy sequence of a node fails on a remote command, the run ends
  there: the exception of that node leaves \<open>deploy\<close>, the trace ends with the failing
  command, and no later node of the list is attempted. The exception's message is made of
  the node's host name, the failing command and its exit status.
\<close>

theorem deploy_stops_at_first_failure:
  assumes "node_list_to_nodes config node_list = Inr (before @ node # after)"
    and "deploy_to_nodes W config image_name before tr = (Inr (), tr1)"
    and "deploy_docker_image W config image_name node tr1 = (Inl (Exception msg), tr2)"
  shows "deploy W config image_name node_list tr = (Inl (Exception msg), tr2) \<and>
         (\<exists>cmd pre. tr2 = pre @ [Run (ssh_argv config cmd node)] \<and>
            W pre (ssh_argv config cmd node) \<noteq> 0 \<and>
            msg = command_failed (fqdn node) cmd (W pre (ssh_argv config cmd node)))"
proof -
  have "deploy_to_nodes W config image_name (before @ node # after) tr = (Inl (Exception msg), tr2)"
    by (simp add: deploy_to_nodes_append assms(2,3))
  then have "deploy W config image_name node_list tr = (Inl (Exception msg), tr2)"
    by (simp add: deploy_def assms(1))
  with deploy_docker_image_failure [OF assms(3)] show ?thesis
    by blast
qed

theorem deploy_stops_at_first_failure_witness:
  "node_list_to_nodes example_config ''nodeA,nodeB'' = Inr ([] @ nodeA # [nodeB]) \<and>
   deploy_to_nodes always_fails example_config ''acme/svc:latest'' [] [] = (Inr (), []) \<and>
   deploy always_fails example_config ''acme/svc:latest'' ''nodeA,nodeB'' [] =
     (Inl (Exception ''Command failed on a.example.org: docker pull acme/svc:latest. Status code: 1''),
      [Print ''Deploying image acme/svc:latest to a.example.org...'',
       Run [''ssh'', ''-o'', ''IdentitiesOnly=yes'', ''-i'', ''/keys/default'', ''deploy@a.example.org'',
            ''docker pull acme/svc:latest'']])"
proof -
  have a: "node_list_to_nodes example_config ''nodeA,nodeB'' = Inr ([] @ nodeA # [nodeB])"
    by (simp add: example_nodes)
  have b: "deploy_to_nodes always_fails example_config ''acme/svc:latest'' [] [] = (Inr (), [])"
    by simp
  from deploy_stops_at_first_failure [OF a b nodeA_pull_fails] a b show ?thesis
    by simp
qed

section \<open>Errors before any command\<close>

lemma get_tango_nodes_cong:
  "tango_nodes c1 = tango_nodes c2 \<Longrightarrow> get_tango_nodes c1 names = get_tango_nodes c2 names"
  by (induction names) (simp_all add: get_tango_node_def split: option.splits sum.splits)

lemma node_list_to_nodes_parse_args:
  "node_list_to_nodes (parse_args_to_config args config) node_list = node_list_to_nodes config node_list"
proof -
  have "tango_nodes (parse_args_to_config args config) = tango_nodes config"
    by (simp add: parse_args_to_config_def)
  then show ?thesis
    using get_tango_nodes_cong [of "parse_args_to_config args config" config]
    by (simp add: node_list_to_nodes_def)
qed

text \<open>
  C2. A selector other than \<open>all\<close> with a token that is not a key of the node mapping
  does not resolve: the lookup raises KeyError (the program's exception for an unknown
  node) for a token that is not a key, no list of nodes is returned, and \<open>deploy\<close> and
  \<open>main\<close> end with that exception with the trace as it was: no ssh command, nor any
  other child process, is started.
\<close>

theorem unknown_name_aborts_before_any_command:
  assumes "node_list \<noteq> ''all''"
    and "name \<in> set (split CHR '','' node_list)"
    and "map_of (tango_nodes config) name = None"
    and "command args = Deploy image_name node_list"
  shows "\<exists>k. k \<in> set (split CHR '','' node_list) \<and> map_of (tango_nodes config) k = None \<and>
           node_list_to_nodes config node_list = Inl (KeyError k) \<and>
           deploy W config image_name node_list tr = (Inl (KeyError k), tr) \<and>
           main W now config args = (Inl (KeyError k), [])"
proof -
  from get_tango_nodes_unknown [OF assms(2,3)] obtain k where
    k: "k \<in> set (split CHR '','' node_list)" "map_of (tango_nodes config) k = None"
    and g: "get_tango_nodes config (split CHR '','' node_list) = Inl (KeyError k)"
    by blast
  have n: "node_list_to_nodes config node_list = Inl (KeyError k)"
    using assms(1) g by (simp add: node_list_to_nodes_def)
  have d: "deploy W config image_name node_list tr = (Inl (KeyError k), tr)"
    by (simp add: deploy_def n)
  have m: "main W now config args = (Inl (KeyError k), [])"
    by (simp add: main_def assms(4) deploy_def node_list_to_nodes_parse_args n)
  from k n d m show ?thesis by blast
qed

theorem unknown_name_aborts_before_any_command_witness:
  "''nodeA, nodeB'' \<noteq> ''all'' \<and>
   '' nodeB'' \<in> set (split CHR '','' ''nodeA, nodeB'') \<and>
   map_of (tango_nodes example_config) '' nodeB'' = None \<and>
   deploy always_succeeds example_config ''acme/svc:latest'' ''nodeA, nodeB'' [] =
     (Inl (KeyError '' nodeB''), []) \<and>
   main always_succeeds example_now example_config
     \<lparr>org = None, ssh_key_path = None, ssh_username = None,
      command = Deploy ''acme/svc:latest'' ''nodeA, nodeB''\<rparr> = (Inl (KeyError '' nodeB''), [])"
proof -
  let ?args = "\<lparr>org = None, ssh_key_path = None, ssh_username = None,
      command = Deploy ''acme/svc:latest'' ''nodeA, nodeB''\<rparr>"
  have a: "''nodeA, nodeB'' \<noteq> ''all''" by simp
  have s: "split CHR '','' ''nodeA, nodeB'' = [''nodeA'', '' nodeB'']" by simp
  have b: "'' nodeB'' \<in> set (split CHR '','' ''nodeA, nodeB'')" unfolding s by simp
  have c: "map_of (tango_nodes example_config) '' nodeB'' = None"
    by (simp add: example_config_def)
  have d: "command ?args = Deploy ''acme/svc:latest'' ''nodeA, nodeB''" by simp
  from unknown_name_aborts_before_any_command [OF a b c d, of always_succeeds "[]" example_now]
  obtain k where k: "k \<in> set (split CHR '','' ''nodeA, nodeB'')"
      "map_of (tango_nodes example_config) k = None"
    and r: "deploy always_succeeds example_config ''acme/svc:latest'' ''nodeA, nodeB'' [] = (Inl (KeyError k), [])"
       "main always_succeeds example_now example_config ?args = (Inl (KeyError k), [])"
    by blast
  from k have "k = '' nodeB''"
    unfolding s by (auto simp: example_config_def)
  with a b c r show ?thesis by simp
qed

text \<open>
  C9. A bare image name with a slash makes \<open>build\<close> fail on its assertion (the
  program's exception for a malformed image name) with the trace as it was: docker is not
  started.
\<close>

theorem slash_in_name_fails_before_build:
  assumes "CHR ''/'' \<in> set image_name"
    and "command args = Build dockerfile image_name"
  shows "\<exists>msg. build W now config dockerfile image_name tr = (Inl (AssertionError msg), tr) \<and>
           main W now config args = (Inl (AssertionError msg), [])"
  using assms by (simp add: build_def main_def Let_def)

theorem slash_in_name_fails_before_build_witness:
  "CHR ''/'' \<in> set ''myorg/myimage'' \<and>
   build always_succeeds example_now example_config ''.'' ''myorg/myimage'' [] =
     (Inl (AssertionError ''image_name, as an argument, should not include a slash (do not specify an org here, use --org instead)''), []) \<and>
   main always_succeeds example_now example_config
     \<lparr>org = None, ssh_key_path = None, ssh_username = None, command = Build ''.'' ''myorg/myimage''\<rparr> =
     (Inl (AssertionError ''image_name, as an argument, should not include a slash (do not specify an org here, use --org instead)''), [])"
proof -
  let ?args = "\<lparr>org = None, ssh_key_path = None, ssh_username = None, command = Build ''.'' ''myorg/myimage''\<rparr>"
  have a: "CHR ''/'' \<in> set ''myorg/myimage''" by simp
  have b: "command ?args = Build ''.'' ''myorg/myimage''" by simp
  from slash_in_name_fails_before_build [OF a b, of always_succeeds example_now example_config "[]"]
  obtain msg where
    m: "build always_succeeds example_now example_config ''.'' ''myorg/myimage'' [] = (Inl (AssertionError msg), [])"
      "main always_succeeds example_now example_config ?args = (Inl (AssertionError msg), [])"
    by blast
  from m(1) have "msg = ''image_name, as an argument, should not include a slash (do not specify an org here, use --org instead)''"
    by (simp add: build_def Let_def)
  with a m show ?thesis by simp
qed

section \<open>Building an image\<close>

lemma decimal_digit_mem: "n < 10 \<Longrightarrow> decimal_digit n \<in> set ''0123456789''"
  unfolding decimal_digit_def using nth_mem [of n "''0123456789''"] by simp

lemma decimal_digit_inj:
  assumes "m < 10" and "n < 10" and "decimal_digit m = decimal_digit n"
  shows "m = n"
proof -
  have d: "distinct ''0123456789''" by simp
  have l: "length ''0123456789'' = 10" by simp
  from assms show ?thesis
    unfolding decimal_digit_def
    using nth_eq_iff_index_eq [OF d, of m n] l by simp
qed

lemma str_nat_one: "n < 10 \<Longrightarrow> str_nat n = [decimal_digit n]"
  by (simp add: str_nat.simps [of n] decimal_digit_def)

lemma str_nat_step: "\<not> n < 10 \<Longrightarrow> str_nat n = str_nat (n div 10) @ [decimal_digit (n mod 10)]"
  by (simp add: str_nat.simps [of n] decimal_digit_def)

lemma str_nat_two:
  assumes "10 \<le> n" and "n < 100"
  shows "str_nat n = two_decimals n"
proof -
  have "n div 10 < 10" using assms(2) by simp
  then show ?thesis
    using assms(1) by (simp add: str_nat_step str_nat_one two_decimals_def)
qed

lemma zero_padded_two:
  assumes "n < 100"
  shows "zero_padded 2 n = two_decimals n"
proof (cases "n < 10")
  case True
  have "decimal_digit 0 = CHR ''0''" by (simp add: decimal_digit_def)
  with True show ?thesis
    by (simp add: zero_padded_def str_nat_one two_decimals_def)
next
  case False
  with assms have "str_nat n = two_decimals n" by (simp add: str_nat_two)
  then show ?thesis
    by (simp add: zero_padded_def two_decimals_def)
qed

lemma str_nat_four:
  assumes "1000 \<le> n" and "n < 10000"
  shows "str_nat n = four_decimals n"
proof -
  have a: "\<not> n < 10" "\<not> n div 10 < 10" "\<not> n div 10 div 10 < 10" "n div 10 div 10 div 10 < 10"
    using assms by simp_all
  have "str_nat n = str_nat (n div 10) @ [decimal_digit (n mod 10)]"
    using a(1) by (rule str_nat_step)
  also have "str_nat (n div 10) = str_nat (n div 10 div 10) @ [decimal_digit (n div 10 mod 10)]"
    using a(2) by (rule str_nat_step)
  also have "str_nat (n div 10 div 10) =
      str_nat (n div 10 div 10 div 10) @ [decimal_digit (n div 10 div 10 mod 10)]"
    using a(3) by (rule str_nat_step)
  also have "str_nat (n div 10 div 10 div 10) = [decimal_digit (n div 10 div 10 div 10)]"
    using a(4) by (rule str_nat_one)
  finally show ?thesis
    by (simp add: four_decimals_def div_mult2_eq [symmetric])
qed

lemma stamp_fields:
  assumes "calendar now"
  shows "get_date_time_stamp now =
     four_decimals (year now) @ ''.'' @ two_decimals (month now) @ ''.'' @
     two_decimals (day now) @ ''.'' @
     two_decimals (hour now) @ two_decimals (minute now) @ two_decimals (second now)"
proof -
  from assms have "1000 \<le> year now" "year now < 10000" "month now < 100" "day now < 100"
    "hour now < 100" "minute now < 100" "second now < 100"
    by (simp_all add: calendar_def)
  then show ?thesis
    by (simp add: get_date_time_stamp_def str_nat_four zero_padded_two)
qed



lemma two_decimals_inj:
  assumes "m < 100" and "n < 100" and "two_decimals m = two_decimals n"
  shows "m = n"
proof -
  have b: "m div 10 < 10" "n div 10 < 10" "m mod 10 < 10" "n mod 10 < 10"
    using assms(1,2) by simp_all
  from assms(3) have d: "decimal_digit (m div 10) = decimal_digit (n div 10)"
    "decimal_digit (m mod 10) = decimal_digit (n mod 10)"
    by (simp_all add: two_decimals_def)
  have "m div 10 = n div 10" using b(1,2) d(1) by (rule decimal_digit_inj)
  moreover have "m mod 10 = n mod 10" using b(3,4) d(2) by (rule decimal_digit_inj)
  ultimately show ?thesis
    by (metis div_mult_mod_eq)
qed

lemma four_decimals_inj:
  assumes "m < 10000" and "n < 10000" and "four_decimals m = four_decimals n"
  shows "m = n"
proof -
  have b: "m div 1000 < 10" "n div 1000 < 10" "m div 100 mod 10 < 10" "n div 100 mod 10 < 10"
    "m div 10 mod 10 < 10" "n div 10 mod 10 < 10" "m mod 10 < 10" "n mod 10 < 10"
    using assms(1,2) by simp_all
  from assms(3) have d: "decimal_digit (m div 1000) = decimal_digit (n div 1000)"
    "decimal_digit (m div 100 mod 10) = decimal_digit (n div 100 mod 10)"
    "decimal_digit (m div 10 mod 10) = decimal_digit (n div 10 mod 10)"
    "decimal_digit (m mod 10) = decimal_digit (n mod 10)"
    by (simp_all add: four_decimals_def)
  have e: "m div 1000 = n div 1000" using b(1,2) d(1) by (rule decimal_digit_inj)
  have f: "m div 100 mod 10 = n div 100 mod 10" using b(3,4) d(2) by (rule decimal_digit_inj)
  have g: "m div 10 mod 10 = n div 10 mod 10" using b(5,6) d(3) by (rule decimal_digit_inj)
  have h: "m mod 10 = n mod 10" using b(7,8) d(4) by (rule decimal_digit_inj)
  have x: "k div 100 = 10 * (k div 1000) + k div 100 mod 10" for k :: nat
    by (simp add: div_mult2_eq [of k 100 10, simplified])
  have y: "k div 10 = 10 * (k div 100) + k div 10 mod 10" for k :: nat
    by (simp add: div_mult2_eq [of k 10 10, simplified])
  have z: "k = 10 * (k div 10) + k mod 10" for k :: nat
    by simp
  have "m div 100 = n div 100" using x [of m] x [of n] e f by simp
  then have "m div 10 = n div 10" using y [of m] y [of n] g by simp
  then show ?thesis using z [of m] z [of n] h by simp
qed

lemma stamp_inj:
  assumes "calendar a" and "calendar b" and "get_date_time_stamp a = get_date_time_stamp b"
  shows "a = b"
proof -
  from assms(1) have ra: "year a < 10000" "month a < 100" "day a < 100"
    "hour a < 100" "minute a < 100" "second a < 100"
    by (simp_all add: calendar_def)
  from assms(2) have rb: "year b < 10000" "month b < 100" "day b < 100"
    "hour b < 100" "minute b < 100" "second b < 100"
    by (simp_all add: calendar_def)
  from assms(3) have e: "four_decimals (year a) = four_decimals (year b)"
    "two_decimals (month a) = two_decimals (month b)"
    "two_decimals (day a) = two_decimals (day b)"
    "two_decimals (hour a) = two_decimals (hour b)"
    "two_decimals (minute a) = two_decimals (minute b)"
    "two_decimals (second a) = two_decimals (second b)"
    unfolding stamp_fields [OF assms(1)] stamp_fields [OF assms(2)]
    by (simp_all add: four_decimals_def two_decimals_def)
  have "year a = year b" using ra(1) rb(1) e(1) by (rule four_decimals_inj)
  moreover have "month a = month b" using ra(2) rb(2) e(2) by (rule two_decimals_inj)
  moreover have "day a = day b" using ra(3) rb(3) e(3) by (rule two_decimals_inj)
  moreover have "hour a = hour b" using ra(4) rb(4) e(4) by (rule two_decimals_inj)
  moreover have "minute a = minute b" using ra(5) rb(5) e(5) by (rule two_decimals_inj)
  moreover have "second a = second b" using ra(6) rb(6) e(6) by (rule two_decimals_inj)
  ultimately show ?thesis by simp
qed


lemma stamp_format:
  assumes "calendar now"
  shows "timestamp_format (get_date_time_stamp now)"
proof -
  from assms have r: "year now < 10000" "month now < 100" "day now < 100"
    "hour now < 100" "minute now < 100" "second now < 100"
    by (simp_all add: calendar_def)
  have m: "decimal_digit (k div 10) \<in> set ''0123456789''"
    "decimal_digit (k mod 10) \<in> set ''0123456789''" if "k < 100" for k
    using that by (simp_all add: decimal_digit_mem del: set_simps)
  have y: "decimal_digit (k div 1000) \<in> set ''0123456789''"
    "decimal_digit (k div 100 mod 10) \<in> set ''0123456789''"
    "decimal_digit (k div 10 mod 10) \<in> set ''0123456789''"
    "decimal_digit (k mod 10) \<in> set ''0123456789''" if "k < 10000" for k
    using that by (simp_all add: decimal_digit_mem del: set_simps)
  show ?thesis
    unfolding stamp_fields [OF assms] timestamp_format_def four_decimals_def two_decimals_def
    using y [OF r(1)] m [OF r(2)] m [OF r(3)] m [OF r(4)] m [OF r(5)] m [OF r(6)]
    by (simp del: set_simps)
qed

lemma stamp_not_latest: "timestamp_format s \<Longrightarrow> s \<noteq> ''latest''"
  by (auto simp: timestamp_format_def)

lemma build_eq:
  "build W now config dockerfile name tr =
     (if CHR ''/'' \<in> set name
      then (Inl (AssertionError
              ''image_name, as an argument, should not include a slash (do not specify an org here, use --org instead)''), tr)
      else if CHR '':'' \<in> set (docker_hub_org config) \<or> CHR '':'' \<in> set name
      then (Inl (AssertionError ''image_name should not include a tag''), tr)
      else if CHR ''/'' \<in> set (docker_hub_org config)
      then (Inl (AssertionError ''image_name should include exactly one slash (for the org)''), tr)
      else (Inr (docker_hub_org config @ ''/'' @ name @ '':latest''),
            tr @ [Run [''docker'', ''build'', ''-t'',
                       docker_hub_org config @ ''/'' @ name @ '':'' @ get_date_time_stamp now, dockerfile],
                  Run [''docker'', ''tag'',
                       docker_hub_org config @ ''/'' @ name @ '':'' @ get_date_time_stamp now,
                       docker_hub_org config @ ''/'' @ name @ '':latest'']]))"
  by (simp add: build_def build_docker_image_from_dockerfile_def subprocess_run_def Let_def
      count_list_0_iff)

text \<open>
  C8. When the bare name and the organization pass the assertions, \<open>build\<close> returns
  \<open>org/name:latest\<close>, whatever the world does. It starts \<open>docker build\<close> with the
  reference \<open>org/name:<timestamp>\<close> and then \<open>docker tag\<close> from that reference to the
  latest one, so the latest reference names what was built under the timestamp. The
  timestamp is the clock reading written out: the year in four decimal digits, a dot, the
  month in two, a dot, the day in two, a dot, and the hour, the minute and the second in
  two digits each. So it has the format \<open>YYYY.MM.DD.HHMMSS\<close>, two clock readings with
  the same timestamp are the same reading, and the two references differ.
\<close>

theorem build_returns_latest_and_tags_timestamp:
  assumes "organization = docker_hub_org config"
    and "CHR ''/'' \<notin> set organization" and "CHR '':'' \<notin> set organization"
    and "CHR ''/'' \<notin> set name" and "CHR '':'' \<notin> set name"
    and "calendar now"
  shows "build W now config dockerfile name tr =
           (Inr (organization @ ''/'' @ name @ '':latest''),
            tr @ [Run [''docker'', ''build'', ''-t'',
                       organization @ ''/'' @ name @ '':'' @ get_date_time_stamp now, dockerfile],
                  Run [''docker'', ''tag'',
                       organization @ ''/'' @ name @ '':'' @ get_date_time_stamp now,
                       organization @ ''/'' @ name @ '':latest'']]) \<and>
         get_date_time_stamp now =
           four_decimals (year now) @ ''.'' @ two_decimals (month now) @ ''.'' @
           two_decimals (day now) @ ''.'' @
           two_decimals (hour now) @ two_decimals (minute now) @ two_decimals (second now) \<and>
         timestamp_format (get_date_time_stamp now) \<and>
         (\<forall>other. calendar other \<and> get_date_time_stamp other = get_date_time_stamp now
            \<longrightarrow> other = now) \<and>
         organization @ ''/'' @ name @ '':'' @ get_date_time_stamp now \<noteq>
           organization @ ''/'' @ name @ '':latest''"
proof -
  have f: "timestamp_format (get_date_time_stamp now)"
    using assms(6) by (rule stamp_format)
  from stamp_not_latest [OF f] have n: "get_date_time_stamp now \<noteq> ''latest''" .
  have i: "\<forall>other. calendar other \<and> get_date_time_stamp other = get_date_time_stamp now
      \<longrightarrow> other = now"
    using stamp_inj [OF _ assms(6)] by blast
  have b: "build W now config dockerfile name tr =
           (Inr (organization @ ''/'' @ name @ '':latest''),
            tr @ [Run [''docker'', ''build'', ''-t'',
                       organization @ ''/'' @ name @ '':'' @ get_date_time_stamp now, dockerfile],
                  Run [''docker'', ''tag'',
                       organization @ ''/'' @ name @ '':'' @ get_date_time_stamp now,
                       organization @ ''/'' @ name @ '':latest'']])"
    using assms(1-5) by (simp add: build_eq)
  from n have d: "organization @ ''/'' @ name @ '':'' @ get_date_time_stamp now \<noteq>
           organization @ ''/'' @ name @ '':latest''"
    by simp
  from b stamp_fields [OF assms(6)] f i d show ?thesis
    by (intro conjI)
qed

theorem build_returns_latest_and_tags_timestamp_witness:
  "CHR ''/'' \<notin> set ''acme'' \<and> CHR '':'' \<notin> set ''acme'' \<and>
   CHR ''/'' \<notin> set ''svc'' \<and> CHR '':'' \<notin> set ''svc'' \<and> calendar example_now \<and>
   build always_succeeds example_now example_config ''.'' ''svc'' [] =
     (Inr ''acme/svc:latest'',
      [Run [''docker'', ''build'', ''-t'', ''acme/svc:2024.03.07.090500'', ''.''],
       Run [''docker'', ''tag'', ''acme/svc:2024.03.07.090500'', ''acme/svc:latest'']]) \<and>
   get_date_time_stamp example_now = ''2024.03.07.090500'' \<and>
   four_decimals 2024 @ ''.'' @ two_decimals 3 @ ''.'' @ two_decimals 7 @ ''.'' @
     two_decimals 9 @ two_decimals 5 @ two_decimals 0 = ''2024.03.07.090500'' \<and>
   timestamp_format ''2024.03.07.090500''"
proof -
  have o: "''acme'' = docker_hub_org example_config"
    by (simp add: example_config_def)
  have a: "CHR ''/'' \<notin> set ''acme''" "CHR '':'' \<notin> set ''acme''"
    "CHR ''/'' \<notin> set ''svc''" "CHR '':'' \<notin> set ''svc''"
    by simp_all
  have c: "calendar example_now"
    by (simp add: calendar_def example_now_def)
  have s: "get_date_time_stamp example_now = ''2024.03.07.090500''"
    by (simp add: get_date_time_stamp_def example_now_def zero_padded_def str_nat.simps)
  have y: "year example_now = 2024" "month example_now = 3" "day example_now = 7"
    "hour example_now = 9" "minute example_now = 5" "second example_now = 0"
    by (simp_all add: example_now_def)
  note t = build_returns_latest_and_tags_timestamp [OF o a c, of always_succeeds "''.''" "[]",
      unfolded s y]
  from t have b: "build always_succeeds example_now example_config ''.'' ''svc'' [] =
     (Inr ''acme/svc:latest'',
      [Run [''docker'', ''build'', ''-t'', ''acme/svc:2024.03.07.090500'', ''.''],
       Run [''docker'', ''tag'', ''acme/svc:2024.03.07.090500'', ''acme/svc:latest'']])"
    by simp
  from t have d: "four_decimals 2024 @ ''.'' @ two_decimals 3 @ ''.'' @ two_decimals 7 @ ''.'' @
     two_decimals 9 @ two_decimals 5 @ two_decimals 0 = ''2024.03.07.090500''"
    by (elim conjE) (rule sym)
  from t have f: "timestamp_format ''2024.03.07.090500''"
    by (elim conjE)
  from a c b s d f show ?thesis
    by (intro conjI)
qed

text \<open>
  C3, as stated, fails: \<open>docker build\<close> reports failure (status 1) and the build mode
  still ends normally, with exit status 0.
\<close>

theorem failed_docker_build_exits_zero_counterexample:
  "always_fails [] [''docker'', ''build'', ''-t'', ''acme/svc:2024.03.07.090500'', ''.''] = 1 \<and>
   main always_fails example_now example_config
     \<lparr>org = None, ssh_key_path = None, ssh_username = None, command = Build ''.'' ''svc''\<rparr> =
     (Inr (),
      [Run [''docker'', ''build'', ''-t'', ''acme/svc:2024.03.07.090500'', ''.''],
       Run [''docker'', ''tag'', ''acme/svc:2024.03.07.090500'', ''acme/svc:latest'']]) \<and>
   exit_code (main always_fails example_now example_config
     \<lparr>org = None, ssh_key_path = None, ssh_username = None, command = Build ''.'' ''svc''\<rparr>) = 0"
proof -
  have s: "get_date_time_stamp example_now = ''2024.03.07.090500''"
    by (simp add: get_date_time_stamp_def example_now_def zero_padded_def str_nat.simps)
  have o: "docker_hub_org (parse_args_to_config
      \<lparr>org = None, ssh_key_path = None, ssh_username = None, command = Build ''.'' ''svc''\<rparr>
      example_config) = ''acme''"
    by (simp add: parse_args_to_config_def if_truthy_else_def example_config_def)
  show ?thesis
    by (simp add: main_def build_eq o s exit_code_def always_fails_def)
qed

text \<open>
  C3, amended. The exit status of the build mode is decided by the assertions on the
  names alone: it is not 0 when the bare image name has a slash (or the name or the
  organization has a colon, or the organization a slash), and 0 otherwise, whatever
  status the docker subprocesses report.
\<close>

theorem build_exit_code:
  assumes "command args = Build dockerfile name"
    and "organization = docker_hub_org (parse_args_to_config args config)"
  shows "exit_code (main W now config args) =
           (if CHR ''/'' \<in> set name \<or> CHR '':'' \<in> set name \<or>
               CHR ''/'' \<in> set organization \<or> CHR '':'' \<in> set organization
            then 1 else 0)"
  using assms by (simp add: main_def build_eq exit_code_def Let_def)

theorem build_exit_code_witness:
  "exit_code (main always_fails example_now example_config
     \<lparr>org = None, ssh_key_path = None, ssh_username = None, command = Build ''.'' ''svc''\<rparr>) = 0 \<and>
   exit_code (main always_succeeds example_now example_config
     \<lparr>org = None, ssh_key_path = None, ssh_username = None, command = Build ''.'' ''myorg/myimage''\<rparr>) = 1"
proof -
  let ?a = "\<lparr>org = None, ssh_key_path = None, ssh_username = None, command = Build ''.'' ''svc''\<rparr>"
  let ?b = "\<lparr>org = None, ssh_key_path = None, ssh_username = None, command = Build ''.'' ''myorg/myimage''\<rparr>"
  have a: "command ?a = Build ''.'' ''svc''" and b: "command ?b = Build ''.'' ''myorg/myimage''"
    by simp_all
  have oa: "''acme'' = docker_hub_org (parse_args_to_config ?a example_config)"
    and ob: "''acme'' = docker_hub_org (parse_args_to_config ?b example_config)"
    by (simp_all add: parse_args_to_config_def if_truthy_else_def example_config_def)
  from build_exit_code [OF a oa, of always_fails example_now]
    build_exit_code [OF b ob, of always_succeeds example_now]
  show ?thesis by simp
qed

section \<open>Effective credentials\<close>

text \<open>
  C7, as stated, fails: \<open>nodeB\<close> has the user name override present and empty, and
  the ssh command is run as the configuration's default user, not as the override.
\<close>

theorem empty_override_not_used_counterexample:
  "TangoNode.ssh_username nodeB = Some [] \<and>
   snd (run_command_on_tango_node always_succeeds example_config ''docker ps'' nodeB []) =
     [Run [''ssh'', ''-o'', ''IdentitiesOnly=yes'', ''-i'', ''/keys/b'', ''tango@b.example.org'',
           ''docker ps'']] \<and>
   snd (run_command_on_tango_node always_succeeds example_config ''docker ps'' nodeB []) \<noteq>
     [Run [''ssh'', ''-o'', ''IdentitiesOnly=yes'', ''-i'', ''/keys/b'', [] @ ''@b.example.org'',
           ''docker ps'']]"
  by (simp add: run_command_on_tango_node_eq ssh_argv_def nodeB_def example_config_def
      if_truthy_else_def)

text \<open>
  C7, amended. The ssh command of a node takes the key path and the user name field by
  field: the node's own value when it is present and not empty, the configuration's
  default otherwise, each field whatever the other is.
\<close>

theorem effective_credentials:
  "snd (run_command_on_tango_node W config cmd node tr) =
     tr @ [Run [''ssh'', ''-o'', ''IdentitiesOnly=yes'', ''-i'',
                (case TangoNode.ssh_key_path node of
                   Some key \<Rightarrow> if key \<noteq> [] then key else Config.ssh_key_path config
                 | None \<Rightarrow> Config.ssh_key_path config),
                (case TangoNode.ssh_username node of
                   Some user \<Rightarrow> if user \<noteq> [] then user else Config.ssh_username config
                 | None \<Rightarrow> Config.ssh_username config) @ ''@'' @ fqdn node,
                cmd]]"
  by (simp add: run_command_on_tango_node_eq ssh_argv_def if_truthy_else_def
      split: option.splits)

theorem effective_credentials_witness:
  "TangoNode.ssh_key_path nodeA = None \<and> TangoNode.ssh_username nodeA = Some ''deploy'' \<and>
   snd (run_command_on_tango_node always_succeeds example_config ''docker ps'' nodeA []) =
     [Run [''ssh'', ''-o'', ''IdentitiesOnly=yes'', ''-i'', ''/keys/default'',
           ''deploy@a.example.org'', ''docker ps'']]"
  using effective_credentials [of always_succeeds example_config "''docker ps''" nodeA "[]"]
  by (simp add: nodeA_def example_config_def)

text \<open>
  C10. An override that is present and empty counts as absent: the configuration's
  default is used for that field, and the command runs as it would with the field
  missing.
\<close>

theorem empty_override_falls_back:
  "(TangoNode.ssh_key_path node = Some [] \<longrightarrow>
      ssh_argv config cmd node ! 4 = Config.ssh_key_path config \<and>
      run_command_on_tango_node W config cmd node tr =
        run_command_on_tango_node W config cmd (node\<lparr>TangoNode.ssh_key_path := None\<rparr>) tr) \<and>
   (TangoNode.ssh_username node = Some [] \<longrightarrow>
      ssh_argv config cmd node ! 5 = Config.ssh_username config @ ''@'' @ fqdn node \<and>
      run_command_on_tango_node W config cmd node tr =
        run_command_on_tango_node W config cmd (node\<lparr>TangoNode.ssh_username := None\<rparr>) tr)"
  by (simp add: run_command_on_tango_node_eq ssh_argv_def if_truthy_else_def)

theorem empty_override_falls_back_witness:
  "TangoNode.ssh_username nodeB = Some [] \<and>
   ssh_argv example_config ''docker ps'' nodeB ! 5 = ''tango@b.example.org'' \<and>
   snd (run_command_on_tango_node always_succeeds example_config ''docker ps'' nodeB []) =
     [Run [''ssh'', ''-o'', ''IdentitiesOnly=yes'', ''-i'', ''/keys/b'', ''tango@b.example.org'',
           ''docker ps'']]"
proof -
  have u: "TangoNode.ssh_username nodeB = Some []"
    by (simp add: nodeB_def)
  from empty_override_falls_back [of nodeB example_config "''docker ps''" always_succeeds "[]"] u
  have "ssh_argv example_config ''docker ps'' nodeB ! 5 =
          Config.ssh_username example_config @ ''@'' @ fqdn nodeB"
    and "run_command_on_tango_node always_succeeds example_config ''docker ps'' nodeB [] =
          run_command_on_tango_node always_succeeds example_config ''docker ps''
            (nodeB\<lparr>TangoNode.ssh_username := None\<rparr>) []"
    by simp_all
  with u show ?thesis
    by (simp add: run_command_on_tango_node_eq ssh_argv_def if_truthy_else_def nodeB_def
        example_config_def)
qed

end
